theory Spec2Isabelle
  imports Complex_Main
begin

section \<open>Numbers\<close>

text \<open>
  The program is TypeScript; its \<^verbatim>\<open>number\<close>s are IEEE doubles. They are modelled here by
  exact rationals: every quantity below is a pixel count, a percentage or a ratio of two
  such, and the development follows the arithmetic the code writes, not its rounding in
  the last binary digit. Division by zero (which gives \<^verbatim>\<open>Infinity\<close> or \<^verbatim>\<open>NaN\<close> in the
  program) has no rational value; theorems that depend on a quotient assume its divisor
  is not zero.

  \<^verbatim>\<open>Math.round\<close> rounds to the nearest integer, a half upwards.
\<close>

definition Math_round :: "rat \<Rightarrow> rat" where
  "Math_round v = of_int \<lfloor>v + 1 / 2\<rfloor>"

definition Math_trunc :: "rat \<Rightarrow> rat" where
  "Math_trunc v = (if 0 \<le> v then of_int \<lfloor>v\<rfloor> else of_int \<lceil>v\<rceil>)"

section \<open>Data model (types.ts)\<close>

datatype GradientType = linear | radial | mesh

record GradientSettings =
  gtype :: GradientType
  colors :: "string list"
  angle :: rat

text \<open>A \<^verbatim>\<open>CropRegion\<close> \<^verbatim>\<open>{x, y, width, height}\<close>, each a percentage.\<close>

record CropRegion =
  region_x :: rat
  region_y :: rat
  region_width :: rat
  region_height :: rat

record CropConfig =
  enabled :: bool
  cropMode :: bool
  region :: CropRegion

record VideoConfig =
  borderRadius :: rat
  padding :: rat
  shadow :: rat
  scale :: rat
  crop :: CropConfig

record EditorState =
  videoUrl :: "string option"
  videoName :: "string option"
  gradient :: GradientSettings
  config :: VideoConfig

section \<open>Constants (constants.tsx)\<close>

definition PRESET_GRADIENTS :: "GradientSettings list" where
  "PRESET_GRADIENTS =
    [\<lparr>gtype = linear, colors = [''#833ab4'', ''#fd1d1d'', ''#fcb045''], angle = 45\<rparr>,
     \<lparr>gtype = linear, colors = [''#4f46e5'', ''#7c3aed''], angle = 45\<rparr>,
     \<lparr>gtype = linear, colors = [''#ec4899'', ''#f43f5e''], angle = 135\<rparr>,
     \<lparr>gtype = linear, colors = [''#06b6d4'', ''#3b82f6''], angle = 225\<rparr>,
     \<lparr>gtype = linear, colors = [''#10b981'', ''#3b82f6''], angle = 0\<rparr>,
     \<lparr>gtype = linear, colors = [''#f59e0b'', ''#ef4444''], angle = 90\<rparr>,
     \<lparr>gtype = linear, colors = [''#000000'', ''#434343''], angle = 45\<rparr>,
     \<lparr>gtype = linear, colors = [''#00d2ff'', ''#3a7bd5''], angle = 45\<rparr>]"

definition fullFrame :: CropRegion where
  "fullFrame = \<lparr>region_x = 0, region_y = 0, region_width = 100, region_height = 100\<rparr>"

definition DEFAULT_CONFIG :: VideoConfig where
  "DEFAULT_CONFIG =
    \<lparr>borderRadius = 24, padding = 60, shadow = 20, scale = 1,
     crop = \<lparr>enabled = False, cropMode = False, region = fullFrame\<rparr>\<rparr>"

definition DEFAULT_GRADIENT :: GradientSettings where
  "DEFAULT_GRADIENT = PRESET_GRADIENTS ! 0"

section \<open>Crop mode in the editor (App)\<close>

text \<open>
  The editor keeps its \<^verbatim>\<open>EditorState\<close> and a reference \<^verbatim>\<open>savedCropRegionRef\<close> that
  holds the region saved on entering crop mode (\<open>None\<close> is the source's \<^verbatim>\<open>null\<close>).

  A handler passes an updater function to \<^verbatim>\<open>setState\<close>. React queues the updater and
  runs it when it next renders the component, after the handler has returned; an updater
  that reads or writes a reference sees the reference as it is then. Each handler is
  therefore modelled in the order in which its effects happen: first the statements that
  follow the call of \<^verbatim>\<open>setState\<close>, then the updater.
\<close>

record App =
  state :: EditorState
  savedCropRegionRef :: "CropRegion option"

definition setCrop :: "(CropConfig \<Rightarrow> CropConfig) \<Rightarrow> EditorState \<Rightarrow> EditorState" where
  "setCrop f st = st\<lparr>config := (config st)\<lparr>crop := f (crop (config st))\<rparr>\<rparr>"

definition updateCrop :: "CropRegion \<Rightarrow> App \<Rightarrow> App" where
  "updateCrop r a = a\<lparr>state := setCrop (\<lambda>c. c\<lparr>region := r\<rparr>) (state a)\<rparr>"

text \<open>The updater of \<^verbatim>\<open>enterCropMode\<close> saves the region in the reference itself; no
  statement follows the call of \<^verbatim>\<open>setState\<close>.\<close>

definition enterCropModeUpdater :: "App \<Rightarrow> App" where
  "enterCropModeUpdater a =
    (let c = crop (config (state a));
         saved = (if enabled c then region c else fullFrame)
     in a\<lparr>savedCropRegionRef := Some saved,
          state := setCrop (\<lambda>c. c\<lparr>cropMode := True, region := saved\<rparr>) (state a)\<rparr>)"

definition enterCropMode :: "App \<Rightarrow> App" where
  "enterCropMode a = enterCropModeUpdater a"

text \<open>\<^verbatim>\<open>acceptCrop\<close> and \<^verbatim>\<open>cancelCrop\<close> call \<^verbatim>\<open>setState\<close> and then clear the
  reference.\<close>

definition acceptCropUpdater :: "App \<Rightarrow> App" where
  "acceptCropUpdater a =
    a\<lparr>state := setCrop (\<lambda>c. c\<lparr>enabled := True, cropMode := False\<rparr>) (state a)\<rparr>"

definition acceptCrop :: "App \<Rightarrow> App" where
  "acceptCrop a = acceptCropUpdater (a\<lparr>savedCropRegionRef := None\<rparr>)"

definition cancelCropUpdater :: "App \<Rightarrow> App" where
  "cancelCropUpdater a =
    a\<lparr>state := setCrop (\<lambda>c. c\<lparr>cropMode := False,
                                  region := (case savedCropRegionRef a of
                                               Some r \<Rightarrow> r | None \<Rightarrow> fullFrame)\<rparr>) (state a)\<rparr>"

definition cancelCrop :: "App \<Rightarrow> App" where
  "cancelCrop a = cancelCropUpdater (a\<lparr>savedCropRegionRef := None\<rparr>)"

text \<open>
  The sidebar's \<^verbatim>\<open>resetCrop\<close> replaces the whole \<^verbatim>\<open>crop\<close> object by
  \<^verbatim>\<open>{enabled, region: full}\<close>; the object it builds has no \<^verbatim>\<open>cropMode\<close> field, which
  reads as false afterwards.
\<close>

definition resetCrop :: "App \<Rightarrow> App" where
  "resetCrop a =
    a\<lparr>state := setCrop (\<lambda>c. \<lparr>enabled = enabled c, cropMode = False, region = fullFrame\<rparr>)
                   (state a)\<rparr>"

text \<open>The region edits available while crop mode is on.\<close>

datatype RegionEdit = UpdateCrop CropRegion | ResetCrop

fun applyEdit :: "App \<Rightarrow> RegionEdit \<Rightarrow> App" where
  "applyEdit a (UpdateCrop r) = updateCrop r a"
| "applyEdit a ResetCrop = resetCrop a"

section \<open>Gradient colours (Sidebar)\<close>

text \<open>
  \<^verbatim>\<open>handleColorChange\<close> assigns \<^verbatim>\<open>newColors[index]\<close>; an index past the end makes
  JavaScript extend the array, the skipped positions being holes (shown here as empty
  strings). \<^verbatim>\<open>removeColor\<close> filters by position.
\<close>

definition handleColorChange :: "nat \<Rightarrow> string \<Rightarrow> GradientSettings \<Rightarrow> GradientSettings" where
  "handleColorChange i c g =
    g\<lparr>colors := (if i < length (colors g) then (colors g)[i := c]
                  else colors g @ replicate (i - length (colors g)) [] @ [c])\<rparr>"

definition addColor :: "GradientSettings \<Rightarrow> GradientSettings" where
  "addColor g = g\<lparr>colors := colors g @ [''#ffffff'']\<rparr>"

definition removeColor :: "nat \<Rightarrow> GradientSettings \<Rightarrow> GradientSettings" where
  "removeColor i g =
    (if length (colors g) > 2
     then g\<lparr>colors := map snd (filter (\<lambda>(j, _). j \<noteq> i) (enumerate 0 (colors g)))\<rparr>
     else g)"

text \<open>
  The actions of the sidebar on the gradient. \<open>ApplyPreset k\<close> is a click on the
  \<open>k\<close>-th preset button; there is one button per preset, so a \<open>k\<close> past the table
  changes nothing.
\<close>

datatype GradientAction =
    ApplyPreset nat
  | ColorChange nat string
  | AddColor
  | RemoveColor nat
  | SetAngle rat

fun gradientStep :: "GradientSettings \<Rightarrow> GradientAction \<Rightarrow> GradientSettings" where
  "gradientStep g (ApplyPreset k) =
     (if k < length PRESET_GRADIENTS then PRESET_GRADIENTS ! k else g)"
| "gradientStep g (ColorChange i c) = handleColorChange i c g"
| "gradientStep g AddColor = addColor g"
| "gradientStep g (RemoveColor i) = removeColor i g"
| "gradientStep g (SetAngle d) = g\<lparr>angle := d\<rparr>"

text \<open>
  The colour stops of the export gradient (\<^verbatim>\<open>createGradient\<close>): a single colour is a
  flat fill; otherwise stop \<open>i\<close> sits at \<open>i * step\<close> with \<open>step = 1 / (n - 1)\<close>.
  \<open>createGradientStep\<close> is \<open>None\<close> where that quotient divides by zero.
\<close>

definition createGradientStep :: "string list \<Rightarrow> rat option" where
  "createGradientStep cs =
    (if rat_of_nat (length cs) - 1 = 0 then None
     else Some (1 / (rat_of_nat (length cs) - 1)))"

datatype CanvasFill = FlatColor string | ColorStops GradientType "(rat \<times> string) list"

definition createGradient :: "GradientSettings \<Rightarrow> CanvasFill option" where
  "createGradient g =
    (if length (colors g) = 1 then Some (FlatColor (colors g ! 0))
     else (case createGradientStep (colors g) of
             None \<Rightarrow> None
           | Some step \<Rightarrow>
               Some (ColorStops (gtype g)
                      (map (\<lambda>(i, c). (rat_of_nat i * step, c)) (enumerate 0 (colors g))))))"

section \<open>The crop overlay (components/CropOverlay.tsx)\<close>

datatype DragHandle =
    Handle_nw | Handle_ne | Handle_sw | Handle_se
  | Handle_n | Handle_s | Handle_e | Handle_w | Handle_move

text \<open>What \<^verbatim>\<open>getVideoBounds\<close> measures: the video's rectangle inside the container.\<close>

record VideoBounds =
  bounds_videoX :: rat
  bounds_videoY :: rat
  bounds_videoWidth :: rat
  bounds_videoHeight :: rat

definition constrainCrop :: "CropRegion \<Rightarrow> CropRegion" where
  "constrainCrop newCrop =
    \<lparr>region_x = max 0 (min (100 - region_width newCrop) (region_x newCrop)),
     region_y = max 0 (min (100 - region_height newCrop) (region_y newCrop)),
     region_width = max 5 (min (100 - region_x newCrop) (region_width newCrop)),
     region_height = max 5 (min (100 - region_y newCrop) (region_height newCrop))\<rparr>"

text \<open>
  The \<^verbatim>\<open>switch (dragHandle)\<close> of \<^verbatim>\<open>handleMouseMove\<close>: the region a handle produces from
  the region at drag start and the pointer's movement in percent of the video.
\<close>

fun dragRegion :: "DragHandle \<Rightarrow> CropRegion \<Rightarrow> rat \<Rightarrow> rat \<Rightarrow> CropRegion" where
  "dragRegion Handle_move c dx dy =
     c\<lparr>region_x := region_x c + dx, region_y := region_y c + dy\<rparr>"
| "dragRegion Handle_nw c dx dy =
     c\<lparr>region_x := region_x c + dx, region_y := region_y c + dy,
       region_width := region_width c - dx, region_height := region_height c - dy\<rparr>"
| "dragRegion Handle_ne c dx dy =
     c\<lparr>region_y := region_y c + dy,
       region_width := region_width c + dx, region_height := region_height c - dy\<rparr>"
| "dragRegion Handle_sw c dx dy =
     c\<lparr>region_x := region_x c + dx,
       region_width := region_width c - dx, region_height := region_height c + dy\<rparr>"
| "dragRegion Handle_se c dx dy =
     c\<lparr>region_width := region_width c + dx, region_height := region_height c + dy\<rparr>"
| "dragRegion Handle_n c dx dy =
     c\<lparr>region_y := region_y c + dy, region_height := region_height c - dy\<rparr>"
| "dragRegion Handle_s c dx dy = c\<lparr>region_height := region_height c + dy\<rparr>"
| "dragRegion Handle_e c dx dy = c\<lparr>region_width := region_width c + dx\<rparr>"
| "dragRegion Handle_w c dx dy =
     c\<lparr>region_x := region_x c + dx, region_width := region_width c - dx\<rparr>"

text \<open>
  A listener registered on the document is identified by its function object.
  \<^verbatim>\<open>handleMouseDown\<close> registers two closures it has just created (\<^verbatim>\<open>moveHandler\<close>,
  \<^verbatim>\<open>upHandler\<close>), which forward to whatever the handler references hold;
  \<^verbatim>\<open>handleMouseUp\<close> asks the document to remove the functions the references hold.
  \<open>Forwarder k\<close> is the closure created by the \<open>k\<close>-th mouse-down, \<open>MoveHandler\<close> and
  \<open>UpHandler\<close> are the component's own \<^verbatim>\<open>handleMouseMove\<close> and \<^verbatim>\<open>handleMouseUp\<close>.
\<close>

datatype Listener = Forwarder nat | MoveHandler | UpHandler

definition addEventListener :: "Listener \<Rightarrow> Listener list \<Rightarrow> Listener list" where
  "addEventListener l ls = (if l \<in> set ls then ls else ls @ [l])"

definition removeEventListener :: "Listener \<Rightarrow> Listener list \<Rightarrow> Listener list" where
  "removeEventListener l ls = removeAll l ls"

text \<open>
  The component's state, its references, the document's listeners for the two event
  types, and the calls of \<^verbatim>\<open>onCropChange\<close> made so far (\<open>delivered\<close>, oldest first).
  \<open>cropProp\<close> is the \<^verbatim>\<open>crop\<close> property the parent passes in.
\<close>

record Overlay =
  cropProp :: CropRegion
  isDragging :: bool
  dragHandle :: "DragHandle option"
  dragStart_x :: rat
  dragStart_y :: rat
  dragStart_crop :: CropRegion
  localCrop :: CropRegion
  dragBoundsRef :: "VideoBounds option"
  renderBoundsRef :: "VideoBounds option"
  forwarders :: nat
  mousemoveListeners :: "Listener list"
  mouseupListeners :: "Listener list"
  delivered :: "CropRegion list"

definition mountOverlay :: "CropRegion \<Rightarrow> Overlay" where
  "mountOverlay c =
    \<lparr>cropProp = c, isDragging = False, dragHandle = None,
     dragStart_x = 0, dragStart_y = 0, dragStart_crop = c, localCrop = c,
     dragBoundsRef = None, renderBoundsRef = None, forwarders = 0,
     mousemoveListeners = [], mouseupListeners = [], delivered = []\<rparr>"

text \<open>
  A handler is a closure: it reads the component's state as of the render that created it
  (\<open>snap\<close>), reads references as they are now, and its state updates land in \<open>s\<close>.
  The container is taken to be attached.
\<close>

definition handleMouseMove :: "rat \<Rightarrow> rat \<Rightarrow> Overlay \<Rightarrow> Overlay \<Rightarrow> Overlay" where
  "handleMouseMove clientX clientY snap s =
    (case (isDragging snap, dragHandle snap, dragBoundsRef s) of
       (True, Some h, Some b) \<Rightarrow>
         (let deltaX = clientX - dragStart_x snap;
              deltaY = clientY - dragStart_y snap;
              deltaXPercent = (deltaX / bounds_videoWidth b) * 100;
              deltaYPercent = (deltaY / bounds_videoHeight b) * 100;
              newCrop = dragRegion h (dragStart_crop snap) deltaXPercent deltaYPercent
          in s\<lparr>localCrop := constrainCrop newCrop\<rparr>)
     | _ \<Rightarrow> s)"

text \<open>
  The parent's \<^verbatim>\<open>onCropChange\<close> is the editor's \<^verbatim>\<open>updateCrop\<close>: it stores the region,
  which comes back as the \<^verbatim>\<open>crop\<close> property.
\<close>

definition onCropChange :: "CropRegion \<Rightarrow> Overlay \<Rightarrow> Overlay" where
  "onCropChange r s = s\<lparr>delivered := delivered s @ [r], cropProp := r\<rparr>"

definition handleMouseUp :: "Overlay \<Rightarrow> Overlay \<Rightarrow> Overlay" where
  "handleMouseUp snap s =
    (let s1 = onCropChange (localCrop snap) s;
         s2 = s1\<lparr>isDragging := False, dragHandle := None,
                 dragBoundsRef := None, renderBoundsRef := None\<rparr>
     in s2\<lparr>mousemoveListeners := removeEventListener MoveHandler (mousemoveListeners s2),
            mouseupListeners := removeEventListener UpHandler (mouseupListeners s2)\<rparr>)"

definition handleMouseDown ::
    "DragHandle \<Rightarrow> rat \<Rightarrow> rat \<Rightarrow> VideoBounds option \<Rightarrow> Overlay \<Rightarrow> Overlay \<Rightarrow> Overlay" where
  "handleMouseDown h clientX clientY bounds snap s =
    (let k = forwarders s
     in s\<lparr>dragBoundsRef := bounds, renderBoundsRef := bounds,
           isDragging := True, dragHandle := Some h,
           dragStart_x := clientX, dragStart_y := clientY, dragStart_crop := cropProp snap,
           forwarders := Suc k,
           mousemoveListeners := addEventListener (Forwarder k) (mousemoveListeners s),
           mouseupListeners := addEventListener (Forwarder k) (mouseupListeners s)\<rparr>)"

text \<open>After an event the component renders again; the effect that follows the render
  copies the property into the local region unless a drag is on.\<close>

definition syncLocalCrop :: "Overlay \<Rightarrow> Overlay" where
  "syncLocalCrop s = (if \<not> isDragging s then s\<lparr>localCrop := cropProp s\<rparr> else s)"

text \<open>
  The events the overlay receives: a mouse-down on one of its handles (with the bounds
  \<^verbatim>\<open>getVideoBounds\<close> measures at that moment), and the document's mouse-move and
  mouse-up. A document event runs every listener registered for it; a forwarder calls the
  handler the reference holds, and the component's own handler, were it registered,
  would run directly.
\<close>

datatype DomEvent =
    MouseDown DragHandle rat rat "VideoBounds option"
  | MouseMove rat rat
  | MouseUp

fun dispatch :: "Overlay \<Rightarrow> DomEvent \<Rightarrow> Overlay" where
  "dispatch s (MouseDown h clientX clientY b) =
     syncLocalCrop (handleMouseDown h clientX clientY b s s)"
| "dispatch s (MouseMove clientX clientY) =
     syncLocalCrop (foldl (\<lambda>acc _. handleMouseMove clientX clientY s acc) s
                      (mousemoveListeners s))"
| "dispatch s MouseUp =
     syncLocalCrop (foldl (\<lambda>acc _. handleMouseUp s acc) s (mouseupListeners s))"

section \<open>Preview geometry (VideoPreview)\<close>

record Dimensions =
  width :: rat
  height :: rat

text \<open>
  The effect that computes the display size from the natural size, the height of the
  window and the scale. \<open>None\<close>: the effect returns early and sets nothing.
\<close>

definition displaySizeEffect :: "rat \<Rightarrow> Dimensions \<Rightarrow> rat \<Rightarrow> Dimensions option" where
  "displaySizeEffect innerHeight videoNaturalSize configScale =
    (if width videoNaturalSize = 0 \<or> height videoNaturalSize = 0 then None
     else
       let maxHeightPx = innerHeight * (7 / 10);
           minWidthPx = 400;
           aspectRatio = width videoNaturalSize / height videoNaturalSize;
           isPortrait = height videoNaturalSize > width videoNaturalSize;
           (displayHeight, displayWidth) =
              (if height videoNaturalSize > maxHeightPx
               then (maxHeightPx, maxHeightPx * aspectRatio)
               else (height videoNaturalSize, width videoNaturalSize));
           (displayHeight, displayWidth) =
              (if isPortrait \<and> displayWidth < minWidthPx
               then (if minWidthPx / aspectRatio > maxHeightPx
                     then (maxHeightPx, maxHeightPx * aspectRatio)
                     else (minWidthPx / aspectRatio, minWidthPx))
               else (displayHeight, displayWidth))
       in Some \<lparr>width = displayWidth * configScale, height = displayHeight * configScale\<rparr>)"

text \<open>What \<^verbatim>\<open>drawFrame\<close> computes before it draws.\<close>

record FrameGeometry =
  frame_videoWidth :: rat
  frame_videoHeight :: rat
  sourceXNatural :: rat
  sourceYNatural :: rat
  sourceWidthNatural :: rat
  sourceHeightNatural :: rat
  frame_scaleFactor :: rat
  radius :: rat
  shadowPadding :: rat
  shadowBlur :: rat
  shadowOffsetY :: rat
  shadowOpacity :: rat
  canvasWidth :: rat
  canvasHeight :: rat
  drawsShadow :: bool
  clipsCorners :: bool

definition drawFrame :: "Dimensions \<Rightarrow> Dimensions \<Rightarrow> VideoConfig \<Rightarrow> FrameGeometry" where
  "drawFrame videoNaturalSize videoDisplaySize cfg =
    (let isInCropMode = cropMode (crop cfg);
         shouldApplyCrop = (enabled (crop cfg) \<and> \<not> isInCropMode);
         r = region (crop cfg);
         videoWidth = (if shouldApplyCrop
                       then (width videoNaturalSize * region_width r) / 100
                       else width videoNaturalSize);
         videoHeight = (if shouldApplyCrop
                        then (height videoNaturalSize * region_height r) / 100
                        else height videoNaturalSize);
         displayWidth = (if shouldApplyCrop
                         then (width videoDisplaySize * region_width r) / 100
                         else width videoDisplaySize);
         scaleFactor = videoWidth / displayWidth;
         scaledPadding = padding cfg * scaleFactor;
         shadowPad = scaledPadding;
         maxShadowBlur = shadowPad * (9 / 10);
         blur = (shadow cfg / 20) * maxShadowBlur
     in \<lparr>frame_videoWidth = videoWidth,
         frame_videoHeight = videoHeight,
         sourceXNatural = (if shouldApplyCrop
                           then (width videoNaturalSize * region_x r) / 100 else 0),
         sourceYNatural = (if shouldApplyCrop
                           then (height videoNaturalSize * region_y r) / 100 else 0),
         sourceWidthNatural = (if shouldApplyCrop
                               then (width videoNaturalSize * region_width r) / 100
                               else width videoNaturalSize),
         sourceHeightNatural = (if shouldApplyCrop
                                then (height videoNaturalSize * region_height r) / 100
                                else height videoNaturalSize),
         frame_scaleFactor = scaleFactor,
         radius = borderRadius cfg * scaleFactor,
         shadowPadding = shadowPad,
         shadowBlur = blur,
         shadowOffsetY = blur * (3 / 10),
         shadowOpacity = min (7 / 10) ((shadow cfg / 20) * (7 / 10)),
         canvasWidth = videoWidth + shadowPad * 2,
         canvasHeight = videoHeight + shadowPad * 2,
         drawsShadow = (shadow cfg > 0),
         clipsCorners = (borderRadius cfg > 0)\<rparr>)"

text \<open>The divisor of \<^verbatim>\<open>scaleFactor\<close> in \<^verbatim>\<open>drawFrame\<close>.\<close>

definition frameDisplayWidth :: "Dimensions \<Rightarrow> VideoConfig \<Rightarrow> rat" where
  "frameDisplayWidth videoDisplaySize cfg =
    (if enabled (crop cfg) \<and> \<not> cropMode (crop cfg)
     then (width videoDisplaySize * region_width (region (crop cfg))) / 100
     else width videoDisplaySize)"

section \<open>Export dimensions (exportVideo)\<close>

datatype ExportQuality = Q720p | Q1080p | Q1440p

datatype ExportFormat = webm | mp4

text \<open>The table \<^verbatim>\<open>qualityLimits\<close>, read with the orientation.\<close>

definition qualityLimits :: "ExportQuality \<Rightarrow> bool \<Rightarrow> Dimensions" where
  "qualityLimits quality isPortrait =
    (case quality of
       Q720p \<Rightarrow> (if isPortrait then \<lparr>width = 720, height = 1280\<rparr>
                 else \<lparr>width = 1280, height = 720\<rparr>)
     | Q1080p \<Rightarrow> (if isPortrait then \<lparr>width = 1080, height = 1920\<rparr>
                  else \<lparr>width = 1920, height = 1080\<rparr>)
     | Q1440p \<Rightarrow> (if isPortrait then \<lparr>width = 1440, height = 2560\<rparr>
                  else \<lparr>width = 2560, height = 1440\<rparr>))"

record ExportDimensions =
  totalWidth :: rat
  totalHeight :: rat
  videoWidth :: rat
  videoHeight :: rat
  scaleFactor :: rat

text \<open>
  The clamp: the block guarded by
  \<^verbatim>\<open>if (totalWidth > maxWidth || totalHeight > maxHeight)\<close>, acting on the five variables
  it reads and assigns.
\<close>

definition clampToQuality :: "Dimensions \<Rightarrow> ExportDimensions \<Rightarrow> ExportDimensions" where
  "clampToQuality limits e =
    (if totalWidth e > width limits \<or> totalHeight e > height limits
     then
       let widthScale = width limits / totalWidth e;
           heightScale = height limits / totalHeight e;
           canvasScale = min widthScale heightScale
       in \<lparr>totalWidth = Math_round (totalWidth e * canvasScale),
           totalHeight = Math_round (totalHeight e * canvasScale),
           videoWidth = Math_round (videoWidth e * canvasScale),
           videoHeight = Math_round (videoHeight e * canvasScale),
           scaleFactor = scaleFactor e * canvasScale\<rparr>
     else e)"

text \<open>The sizes before the clamp: the video (cropped when crop is enabled), the factor
  from display to natural pixels, and the padded composite.\<close>

definition unclampedDimensions :: "Dimensions \<Rightarrow> Dimensions \<Rightarrow> VideoConfig \<Rightarrow> ExportDimensions" where
  "unclampedDimensions videoNaturalSize videoDisplaySize cfg =
    (let r = region (crop cfg);
         vw = (if enabled (crop cfg)
               then (width videoNaturalSize * region_width r) / 100
               else width videoNaturalSize);
         vh = (if enabled (crop cfg)
               then (height videoNaturalSize * region_height r) / 100
               else height videoNaturalSize);
         sf = (if enabled (crop cfg)
               then vw / ((width videoDisplaySize * region_width r) / 100)
               else vw / width videoDisplaySize);
         scaledPadding = padding cfg * sf
     in \<lparr>totalWidth = vw + scaledPadding * 2,
         totalHeight = vh + scaledPadding * 2,
         videoWidth = vw, videoHeight = vh, scaleFactor = sf\<rparr>)"

definition exportDimensions ::
    "Dimensions \<Rightarrow> Dimensions \<Rightarrow> VideoConfig \<Rightarrow> ExportQuality \<Rightarrow> ExportDimensions" where
  "exportDimensions videoNaturalSize videoDisplaySize cfg quality =
    (let e = unclampedDimensions videoNaturalSize videoDisplaySize cfg;
         isPortrait = (videoHeight e > videoWidth e)
     in clampToQuality (qualityLimits quality isPortrait) e)"

text \<open>
  The pixel size of what is delivered. The WebM is the recording of the export canvas, whose
  \<^verbatim>\<open>width\<close> and \<^verbatim>\<open>height\<close> take the integer part of what they are assigned. The MP4 comes
  out of the filter \<^verbatim>\<open>scale='trunc(min(W,iw)/2)*2':'trunc(min(H,ih)/2)*2'\<close> applied to
  that recording.
\<close>

definition ffmpegScale :: "rat \<Rightarrow> rat \<Rightarrow> rat" where
  "ffmpegScale limit v = Math_trunc (min limit v / 2) * 2"

definition deliveredSize :: "ExportFormat \<Rightarrow> Dimensions \<Rightarrow> ExportDimensions \<Rightarrow> Dimensions" where
  "deliveredSize format limits e =
    (let iw = Math_trunc (totalWidth e); ih = Math_trunc (totalHeight e)
     in case format of
          webm \<Rightarrow> \<lparr>width = iw, height = ih\<rparr>
        | mp4 \<Rightarrow> \<lparr>width = ffmpegScale (width limits) iw,
                  height = ffmpegScale (height limits) ih\<rparr>)"

definition evenPixels :: "rat \<Rightarrow> bool" where
  "evenPixels v \<longleftrightarrow> of_int (2 * \<lfloor>v / 2\<rfloor>) = v"

section \<open>The export pipeline (exportVideo)\<close>

text \<open>
  The export is asynchronous: it waits for the browser (metadata, seek, playback, the
  recorder's stop event, the transcoder's calls), and between two steps the user may press
  Cancel, which sets the shared flag \<^verbatim>\<open>cancelRef.current\<close>. The model passes the state
  explicitly and reads what the environment does from a record: the result of each awaited
  call and, for each wait, whether Cancel is pressed during it. The flag is only ever set
  during an export, never cleared. The browser events the code waits for (metadata, the end
  of the seek, the recorder's stop event once the recorder is inactive) are taken to
  arrive.

  The state holds what the code can observe or change: the video element, the flag, the
  recorder, the variables of the closure, and the side effects so far. \<open>downloads\<close> lists
  the extension of each file saved through a clicked download link, \<open>alerts\<close> the
  messages shown, \<open>statuses\<close> the strings sent to \<^verbatim>\<open>onStatusUpdate\<close>; \<open>promise\<close> is the
  promise \<^verbatim>\<open>exportVideo\<close> returns (its last statement awaits \<^verbatim>\<open>recordingPromise\<close>, so past
  that point the two settle alike). \<open>cancelSeen\<close> is bookkeeping of the model only: the
  places where a call of \<^verbatim>\<open>isCancelled()\<close> has returned true, in order.
\<close>

datatype PromiseState = Pending | Resolved | Rejected string

datatype RecorderState = inactive | recording

datatype Checkpoint = AtPreparing | AtRecordFrame | AtRecorderStop | AtTranscode

record VideoElement =
  loop :: bool
  paused :: bool
  ended :: bool

record Export =
  video :: VideoElement
  cancelRef :: bool
  wasLooping :: bool
  recorderState :: RecorderState
  stopEventDue :: bool
  recordingStopped :: bool
  exportAnimationId :: bool
  endedListener :: bool
  chunks :: "nat list"
  statuses :: "string list"
  downloads :: "string list"
  alerts :: "string list"
  promise :: PromiseState
  cancelSeen :: "Checkpoint list"

definition startExport :: "VideoElement \<Rightarrow> bool \<Rightarrow> Export" where
  "startExport v cancelled =
    \<lparr>video = v, cancelRef = cancelled, wasLooping = False, recorderState = inactive,
     stopEventDue = False, recordingStopped = False, exportAnimationId = False,
     endedListener = False, chunks = [], statuses = [], downloads = [], alerts = [],
     promise = Pending, cancelSeen = []\<rparr>"

definition updateStatus :: "string \<Rightarrow> Export \<Rightarrow> Export" where
  "updateStatus status s = s\<lparr>statuses := statuses s @ [status]\<rparr>"

definition isCancelled :: "Export \<Rightarrow> bool" where
  "isCancelled s = cancelRef s"

definition seen :: "Checkpoint \<Rightarrow> Export \<Rightarrow> Export" where
  "seen c s = s\<lparr>cancelSeen := cancelSeen s @ [c]\<rparr>"

text \<open>A wait during which Cancel may be pressed.\<close>

definition pressCancel :: "bool \<Rightarrow> Export \<Rightarrow> Export" where
  "pressCancel pressed s = s\<lparr>cancelRef := (cancelRef s \<or> pressed)\<rparr>"

text \<open>A promise settles once.\<close>

definition resolve :: "Export \<Rightarrow> Export" where
  "resolve s = (if promise s = Pending then s\<lparr>promise := Resolved\<rparr> else s)"

definition reject :: "string \<Rightarrow> Export \<Rightarrow> Export" where
  "reject message s = (if promise s = Pending then s\<lparr>promise := Rejected message\<rparr> else s)"

text \<open>The download link \<^verbatim>\<open>gradient-video-<time>.<extension>\<close>, clicked.\<close>

definition saveFile :: "string \<Rightarrow> Export \<Rightarrow> Export" where
  "saveFile extension s = s\<lparr>downloads := downloads s @ [extension]\<rparr>"

definition alert :: "string \<Rightarrow> Export \<Rightarrow> Export" where
  "alert message s = s\<lparr>alerts := alerts s @ [message]\<rparr>"

definition setLoop :: "bool \<Rightarrow> Export \<Rightarrow> Export" where
  "setLoop b s = s\<lparr>video := (video s)\<lparr>loop := b\<rparr>\<rparr>"

definition pause :: "Export \<Rightarrow> Export" where
  "pause s = s\<lparr>video := (video s)\<lparr>paused := True\<rparr>\<rparr>"

subsection \<open>Transcoding to MP4\<close>

text \<open>
  What the transcoding engine does, as the environment decides it. A failed call carries
  the message the handler will print (\<^verbatim>\<open>error.message\<close>, or \<^verbatim>\<open>String(error)\<close> for a
  thrown value that is no \<^verbatim>\<open>Error\<close>). \<open>engineLoaded\<close> is \<^verbatim>\<open>ffmpeg.loaded\<close> on entry;
  \<open>loadResult\<close> covers \<^verbatim>\<open>toBlobURL\<close> and \<^verbatim>\<open>ffmpeg.load\<close>, \<open>writeFileResult\<close> covers
  \<^verbatim>\<open>fetchFile\<close> and \<^verbatim>\<open>ffmpeg.writeFile\<close>.
\<close>

datatype FileData = Uint8Array nat | OtherData

record FFmpegEnv =
  engineLoaded :: bool
  loadResult :: "string option"
  cancelDuringLoad :: bool
  writeFileResult :: "string option"
  cancelDuringWrite :: bool
  readInputResult :: "string + FileData"
  execResult :: "string option"
  readOutputResult :: "string + FileData"

text \<open>The body of both \<^verbatim>\<open>catch\<close> blocks.\<close>

definition fallbackToWebM :: "string \<Rightarrow> Export \<Rightarrow> Export" where
  "fallbackToWebM errorMessage s =
    resolve (alert (''MP4 conversion failed: '' @ errorMessage @ ''. Downloaded as WebM instead.'')
              (saveFile ''webm'' s))"

text \<open>
  A \<^verbatim>\<open>try\<close> body returns the message of the error it throws, if any, with the state at
  that point. \<open>encodeMp4\<close> is the inner body; errors of the final clean-up are swallowed
  there and change nothing.
\<close>

definition encodeMp4 :: "FFmpegEnv \<Rightarrow> Export \<Rightarrow> string option \<times> Export" where
  "encodeMp4 env s =
    (case execResult env of
       Some e \<Rightarrow> (Some e, s)
     | None \<Rightarrow>
        (case readOutputResult env of
           Inl e \<Rightarrow> (Some e, s)
         | Inr (Uint8Array n) \<Rightarrow>
             if n = 0 then (Some ''FFmpeg conversion produced empty output file'', s)
             else (None, resolve (updateStatus ''Export complete!''
                           (saveFile ''mp4'' (updateStatus ''Finalizing MP4 export...'' s))))
         | Inr OtherData \<Rightarrow> (Some ''FFmpeg conversion produced empty output file'', s)))"

definition verifyAndEncode :: "FFmpegEnv \<Rightarrow> Export \<Rightarrow> string option \<times> Export" where
  "verifyAndEncode env s =
    (case readInputResult env of
       Inl e \<Rightarrow> (Some e, s)
     | Inr inputStat \<Rightarrow>
         if inputStat = Uint8Array 0 then (Some ''Input WebM file is empty!'', s)
         else
           (case encodeMp4 env (updateStatus ''Encoding MP4 (this may take a moment)...'' s) of
              (Some e, s') \<Rightarrow> (None, fallbackToWebM e s')
            | (None, s') \<Rightarrow> (None, s')))"

definition writeInput :: "FFmpegEnv \<Rightarrow> Export \<Rightarrow> string option \<times> Export" where
  "writeInput env s =
    (if isCancelled s then (Some ''Export cancelled'', seen AtTranscode s)
     else
       let s1 = pressCancel (cancelDuringWrite env)
                  (updateStatus ''Preparing video for conversion...'' s)
       in case writeFileResult env of
            Some e \<Rightarrow> (Some e, s1)
          | None \<Rightarrow>
              if isCancelled s1 then (Some ''Export cancelled'', seen AtTranscode s1)
              else verifyAndEncode env s1)"

definition convertToMp4 :: "FFmpegEnv \<Rightarrow> Export \<Rightarrow> string option \<times> Export" where
  "convertToMp4 env s =
    (let s1 = updateStatus ''Converting to MP4...'' s
     in if \<not> engineLoaded env
        then
          let s2 = pressCancel (cancelDuringLoad env) (updateStatus ''Loading FFmpeg...'' s1)
          in case loadResult env of
               Some e \<Rightarrow> (Some e, s2)
             | None \<Rightarrow> writeInput env s2
        else writeInput env s1)"

subsection \<open>The recorder's stop handler\<close>

definition onstop :: "FFmpegEnv \<Rightarrow> ExportFormat \<Rightarrow> Export \<Rightarrow> Export" where
  "onstop env format s =
    (let s1 = setLoop (wasLooping s) s
     in if isCancelled s1 then reject ''Export cancelled'' (seen AtRecorderStop s1)
        else if chunks s1 = []
        then reject ''No video data recorded''
               (updateStatus ''Export failed: No video data recorded'' s1)
        else if format = webm
        then resolve (updateStatus ''Export complete!''
                (saveFile ''webm'' (updateStatus ''Finalizing WebM export...'' s1)))
        else (case convertToMp4 env s1 of
                (Some e, s2) \<Rightarrow> fallbackToWebM e s2
              | (None, s2) \<Rightarrow> s2))"

subsection \<open>Recording\<close>

text \<open>\<^verbatim>\<open>mediaRecorder.stop()\<close>: the recorder becomes inactive at once and its stop event is
  due.\<close>

definition stopRecorder :: "Export \<Rightarrow> Export" where
  "stopRecorder s = s\<lparr>recorderState := inactive, stopEventDue := True\<rparr>"

definition onerror :: "Export \<Rightarrow> Export" where
  "onerror s =
    reject ''MediaRecorder error occurred''
      (setLoop (wasLooping s) (s\<lparr>recordingStopped := True\<rparr>))"

definition ondataavailable :: "nat \<Rightarrow> Export \<Rightarrow> Export" where
  "ondataavailable dataSize s = (if dataSize > 0 then s\<lparr>chunks := chunks s @ [dataSize]\<rparr> else s)"

text \<open>One animation frame of the recording. Drawing the frame changes nothing the model
  tracks.\<close>

definition recordFrame :: "Export \<Rightarrow> Export" where
  "recordFrame s =
    (if recordingStopped s \<or> isCancelled s
     then
       let s1 = (if isCancelled s then seen AtRecordFrame s else s)\<lparr>exportAnimationId := False\<rparr>
       in if isCancelled s1 \<and> recorderState s1 = recording
          then pause (setLoop (wasLooping s1) (stopRecorder s1))
          else s1
     else if ended (video s)
     then (if recorderState s = recording then stopRecorder s else s)\<lparr>exportAnimationId := False\<rparr>
     else s\<lparr>exportAnimationId := True\<rparr>)"

definition stopRecording :: "Export \<Rightarrow> Export" where
  "stopRecording s =
    (if \<not> recordingStopped s \<and> recorderState s = recording
     then (stopRecorder (s\<lparr>recordingStopped := True\<rparr>))\<lparr>exportAnimationId := False\<rparr>
     else s)"

text \<open>
  What can happen while the recording runs: Cancel is pressed, an animation frame is due
  (it runs \<^verbatim>\<open>recordFrame\<close> if one was requested), playback reaches the end of the video
  (the export has switched looping off, so the browser marks the video ended and paused),
  the video's \<^verbatim>\<open>ended\<close> event is delivered (to a listener registered \<^verbatim>\<open>once\<close>), the
  recorder delivers data, the recorder fails. A recorder that fails becomes inactive, its
  error handler runs, and its stop event is due as after \<^verbatim>\<open>stop()\<close> (the recording
  interface's rule for a recorder that cannot continue).
\<close>

datatype RecordingEvent =
    UserCancel
  | AnimationFrame
  | PlaybackEnds
  | EndedEvent
  | DataAvailable nat
  | RecorderError

fun recordingStep :: "Export \<Rightarrow> RecordingEvent \<Rightarrow> Export" where
  "recordingStep s UserCancel = pressCancel True s"
| "recordingStep s AnimationFrame = (if exportAnimationId s then recordFrame s else s)"
| "recordingStep s PlaybackEnds = s\<lparr>video := (video s)\<lparr>ended := True, paused := True\<rparr>\<rparr>"
| "recordingStep s EndedEvent =
     (if endedListener s then stopRecording (s\<lparr>endedListener := False\<rparr>) else s)"
| "recordingStep s (DataAvailable n) = ondataavailable n s"
| "recordingStep s RecorderError = stopRecorder (onerror s)"

record ExportEnv =
  refsAttached :: bool
  contextAvailable :: bool
  durationKnown :: bool
  cancelDuringMetadata :: bool
  cancelBeforeRecording :: bool
  playResult :: "string option"
  events :: "RecordingEvent list"
  finalData :: nat
  cancelBeforeStop :: bool
  ffmpeg :: FFmpegEnv

text \<open>
  Once inactive, the recorder delivers its last data and then its stop event; Cancel may be
  pressed before that.
\<close>

definition finishRecording :: "ExportEnv \<Rightarrow> ExportFormat \<Rightarrow> Export \<Rightarrow> Export" where
  "finishRecording env format s =
    onstop (ffmpeg env) format
      (ondataavailable (finalData env) (pressCancel (cancelBeforeStop env) s))"

text \<open>The recording runs until the recorder is inactive. If the events end before that,
  the export is still waiting and its promise is pending.\<close>

fun recordLoop :: "ExportEnv \<Rightarrow> ExportFormat \<Rightarrow> RecordingEvent list \<Rightarrow> Export \<Rightarrow> Export" where
  "recordLoop env format [] s = s"
| "recordLoop env format (e # es) s =
     (let s1 = recordingStep s e
      in if stopEventDue s1 then finishRecording env format s1
         else recordLoop env format es s1)"

subsection \<open>The export\<close>

text \<open>
  From the check before recording up to the call of \<^verbatim>\<open>video.play()\<close>: the seek to the
  start (during which, as during the wait for playback, Cancel may be pressed) and the start
  of the recorder.
\<close>

definition prepareRecording :: "ExportEnv \<Rightarrow> Export \<Rightarrow> Export" where
  "prepareRecording env s =
    (let s1 = updateStatus ''Starting video recording...'' s;
         s2 = pressCancel (cancelBeforeRecording env)
                (s1\<lparr>video := (video s1)\<lparr>ended := False\<rparr>\<rparr>);
         s3 = s2\<lparr>recorderState := recording\<rparr>
     in updateStatus ''Recording video...'' s3)"

definition startRecording :: "ExportEnv \<Rightarrow> ExportFormat \<Rightarrow> Export \<Rightarrow> Export" where
  "startRecording env format s =
    (let s4 = prepareRecording env s
     in case playResult env of
          Some e \<Rightarrow> reject e s4
        | None \<Rightarrow>
            let s5 = recordFrame (s4\<lparr>video := (video s4)\<lparr>paused := False\<rparr>\<rparr>)
            in if stopEventDue s5 then finishRecording env format s5
               else recordLoop env format (events env) (s5\<lparr>endedListener := True\<rparr>))"

definition exportVideo ::
    "Dimensions \<Rightarrow> ExportFormat \<Rightarrow> ExportEnv \<Rightarrow> Export \<Rightarrow> Export" where
  "exportVideo videoNaturalSize format env s =
    (let s1 = updateStatus ''Preparing export...'' s
     in if \<not> refsAttached env \<or> width videoNaturalSize = 0
        then reject ''Video or canvas not available for export''
               (updateStatus ''Export failed: Video not ready'' s1)
        else if \<not> contextAvailable env
        then reject ''Failed to get canvas context''
               (updateStatus ''Export failed: Could not create canvas context'' s1)
        else
          let s2 = setLoop False (s1\<lparr>wasLooping := loop (video s1)\<rparr>);
              s3 = (if \<not> durationKnown env
                    then pressCancel (cancelDuringMetadata env)
                           (updateStatus ''Loading video metadata...'' s2)
                    else s2)
          in if isCancelled s3 then resolve (seen AtPreparing (setLoop (wasLooping s3) s3))
             else startRecording env format s3)"

section \<open>Notions used in the statements and proofs\<close>


text \<open>
  What holds at the end of an export, by the place where the flag was first seen set:
  before recording, by an animation frame of the recording, or by the recorder's stop
  handler. Nothing is said about a flag first seen during transcoding.
\<close>

definition cancelOutcome :: "VideoElement \<Rightarrow> Export \<Rightarrow> bool" where
  "cancelOutcome v f =
    (case cancelSeen f of
       [] \<Rightarrow> True
     | AtPreparing # _ \<Rightarrow>
         downloads f = [] \<and> loop (video f) = loop v \<and> paused (video f) = paused v
         \<and> promise f = Resolved
     | AtRecordFrame # _ \<Rightarrow>
         downloads f = [] \<and> loop (video f) = loop v \<and> paused (video f)
         \<and> promise f = Rejected ''Export cancelled''
     | AtRecorderStop # _ \<Rightarrow>
         downloads f = [] \<and> loop (video f) = loop v
         \<and> promise f = Rejected ''Export cancelled''
     | AtTranscode # _ \<Rightarrow> True)"

text \<open>The invariant of the recording while the recorder runs, and what holds when
  \<^verbatim>\<open>stop()\<close> has just been called.\<close>

definition recordingInv :: "bool \<Rightarrow> Export \<Rightarrow> bool" where
  "recordingInv w s \<longleftrightarrow>
     promise s = Pending \<and> downloads s = [] \<and> wasLooping s = w \<and> cancelSeen s = []
     \<and> recorderState s = recording \<and> \<not> stopEventDue s"

definition stopState :: "bool \<Rightarrow> Export \<Rightarrow> bool" where
  "stopState w s \<longleftrightarrow>
     promise s = Pending \<and> downloads s = [] \<and> wasLooping s = w
     \<and> (cancelSeen s = [] \<or> cancelSeen s = [AtRecordFrame] \<and> cancelRef s \<and> paused (video s))"



subsection \<open>Example inputs\<close>

text \<open>An editor with an accepted crop of the middle of the frame.\<close>

definition croppedEditor :: App where
  "croppedEditor =
    \<lparr>state =
       \<lparr>videoUrl = Some ''blob:video'', videoName = Some ''clip.mp4'',
        gradient = DEFAULT_GRADIENT,
        config = DEFAULT_CONFIG
          \<lparr>crop := \<lparr>enabled = True, cropMode = False,
                    region = \<lparr>region_x = 10, region_y = 10,
                              region_width = 50, region_height = 50\<rparr>\<rparr>\<rparr>\<rparr>,
     savedCropRegionRef = None\<rparr>"

text \<open>A video measured at 512 by 512 pixels on screen.\<close>

definition bounds512 :: VideoBounds where
  "bounds512 =
    \<lparr>bounds_videoX = 0, bounds_videoY = 0, bounds_videoWidth = 512, bounds_videoHeight = 512\<rparr>"

text \<open>A 4000 by 3000 source, and its display size in a window 1500 pixels high.\<close>

definition source4000 :: Dimensions where
  "source4000 = \<lparr>width = 4000, height = 3000\<rparr>"

definition display1400 :: Dimensions where
  "display1400 = \<lparr>width = 1400, height = 1050\<rparr>"

text \<open>The preview's video element: playing, looping.\<close>

definition previewVideo :: VideoElement where
  "previewVideo = \<lparr>loop = True, paused = False, ended = False\<rparr>"

text \<open>An engine that still has to load and then does everything asked of it.\<close>

definition workingEngine :: FFmpegEnv where
  "workingEngine =
    \<lparr>engineLoaded = False, loadResult = None, cancelDuringLoad = False,
     writeFileResult = None, cancelDuringWrite = False,
     readInputResult = Inr (Uint8Array 1500), execResult = None,
     readOutputResult = Inr (Uint8Array 900)\<rparr>"

text \<open>An export nobody cancels: data arrives, playback ends, the next frame sees it.\<close>

definition quietExport :: ExportEnv where
  "quietExport =
    \<lparr>refsAttached = True, contextAvailable = True, durationKnown = True,
     cancelDuringMetadata = False, cancelBeforeRecording = False, playResult = None,
     events = [DataAvailable 1000, PlaybackEnds, AnimationFrame], finalData = 500,
     cancelBeforeStop = False, ffmpeg = workingEngine\<rparr>"

section \<open>Arithmetic of rounding\<close>

lemma floor_numeral_quotient [simp]:
  "\<lfloor>(numeral a :: rat) / numeral b\<rfloor> = numeral a div numeral b"
  using floor_divide_of_int_eq [of "numeral a" "numeral b", where ?'a = rat] by simp

lemma Math_round_le: "v \<le> of_int m \<Longrightarrow> Math_round v \<le> of_int m"
  unfolding Math_round_def by (simp add: floor_le_iff)

lemma Math_round_near: "\<bar>Math_round v - v\<bar> \<le> 1 / 2"
proof -
  have "of_int \<lfloor>v + 1 / 2\<rfloor> \<le> v + 1 / 2" "v + 1 / 2 < of_int \<lfloor>v + 1 / 2\<rfloor> + 1"
    using floor_correct [of "v + 1 / 2"] by simp_all
  then show ?thesis unfolding Math_round_def by linarith
qed

lemma Math_round_int: "Math_round (of_int m) = of_int m"
  unfolding Math_round_def by (simp add: floor_eq_iff)

lemma Math_trunc_round: "0 \<le> v \<Longrightarrow> Math_trunc (Math_round v) = Math_round v"
  unfolding Math_trunc_def Math_round_def by simp

lemma evenPixels_ffmpegScale: "evenPixels (ffmpegScale l v)"
  unfolding evenPixels_def ffmpegScale_def Math_trunc_def by simp

section \<open>The crop overlay: constraining and delivering the region\<close>

text \<open>
  Claim C3. For every region, whatever its fields, \<^verbatim>\<open>constrainCrop\<close> should return a
  region with \<open>x\<close> in \<open>[0, 100 - width]\<close>, \<open>y\<close> in \<open>[0, 100 - height]\<close>, width and
  height at least 5, \<open>x + width \<le> 100\<close> and \<open>y + height \<le> 100\<close>.

  The code does not achieve this. It bounds the width by \<open>100 - x\<close> with the \<open>x\<close> it was
  given, not the \<open>x\<close> it returns. Starting from the full frame and dragging the west handle
  128 pixels to the left over a video 512 pixels wide asks for \<open>x = -25\<close>, \<open>width = 125\<close>;
  the region kept has \<open>x = 0\<close> and \<open>width = 125\<close>, which reaches 25 percent past the
  right edge.
\<close>

theorem constrainCrop_exceeds_frame:
  "localCrop (foldl dispatch (mountOverlay fullFrame)
      [MouseDown Handle_w 300 200 (Some bounds512), MouseMove 172 200])
     = constrainCrop
         \<lparr>region_x = - 25, region_y = 0, region_width = 125, region_height = 100\<rparr>
   \<and> constrainCrop \<lparr>region_x = - 25, region_y = 0, region_width = 125, region_height = 100\<rparr>
     = \<lparr>region_x = 0, region_y = 0, region_width = 125, region_height = 100\<rparr>
   \<and> \<not> (region_x (constrainCrop
              \<lparr>region_x = - 25, region_y = 0, region_width = 125, region_height = 100\<rparr>)
        + region_width (constrainCrop
              \<lparr>region_x = - 25, region_y = 0, region_width = 125, region_height = 100\<rparr>)
        \<le> 100)"
  by (simp add: mountOverlay_def fullFrame_def bounds512_def handleMouseDown_def
      handleMouseMove_def syncLocalCrop_def addEventListener_def constrainCrop_def Let_def)

text \<open>A mouse-move never calls \<^verbatim>\<open>onCropChange\<close>, however many listeners run.\<close>

lemma handleMouseMove_delivered:
  "delivered (handleMouseMove cx cy snap s) = delivered s"
  by (simp add: handleMouseMove_def Let_def split: option.split bool.split)

lemma mousemove_listeners_delivered:
  "delivered (foldl (\<lambda>acc _. handleMouseMove cx cy snap acc) s ls) = delivered s"
  by (induction ls arbitrary: s) (simp_all add: handleMouseMove_delivered)

lemma mousemove_delivers_nothing:
  "delivered (dispatch s (MouseMove cx cy)) = delivered s"
  by (simp add: syncLocalCrop_def mousemove_listeners_delivered)

text \<open>
  Claim C8. During a drag the overlay should hand no intermediate region to its parent
  (no call of \<^verbatim>\<open>onCropChange\<close> on a mouse-move), and hand over the final region exactly
  once, on release.

  The first half holds (\<open>mousemove_delivers_nothing\<close>). The second does not. Each
  mouse-down registers two new forwarding closures on the document; on release the handler
  asks the document to remove \<^verbatim>\<open>handleMouseMoveRef.current\<close> and
  \<^verbatim>\<open>handleMouseUpRef.current\<close>, which were never registered, so the forwarders stay.
  After a click on the crop box (mouse-down and mouse-up without movement, which delivers
  the unchanged region) a drag of the east handle delivers nothing while the pointer moves
  and then, on release, delivers its region twice.
\<close>

theorem second_release_delivers_twice:
  "delivered (foldl dispatch (mountOverlay fullFrame)
      [MouseDown Handle_move 300 200 (Some bounds512), MouseUp,
       MouseDown Handle_e 300 200 (Some bounds512), MouseMove 172 200])
     = [fullFrame]
   \<and> delivered (foldl dispatch (mountOverlay fullFrame)
      [MouseDown Handle_move 300 200 (Some bounds512), MouseUp,
       MouseDown Handle_e 300 200 (Some bounds512), MouseMove 172 200, MouseUp])
     = [fullFrame,
        \<lparr>region_x = 0, region_y = 0, region_width = 75, region_height = 100\<rparr>,
        \<lparr>region_x = 0, region_y = 0, region_width = 75, region_height = 100\<rparr>]"
  by (simp add: mountOverlay_def fullFrame_def bounds512_def handleMouseDown_def
      handleMouseMove_def handleMouseUp_def onCropChange_def removeEventListener_def
      syncLocalCrop_def addEventListener_def constrainCrop_def Let_def)

section \<open>Crop mode: entering and cancelling\<close>

text \<open>Whatever was saved, cancelling leaves the full frame: by the time the updater
  runs, the reference has been cleared.\<close>

lemma cancelCrop_region:
  "region (crop (config (state (cancelCrop a)))) = fullFrame
   \<and> cropMode (crop (config (state (cancelCrop a)))) = False
   \<and> enabled (crop (config (state (cancelCrop a)))) = enabled (crop (config (state a)))"
  by (simp add: cancelCrop_def cancelCropUpdater_def setCrop_def)

text \<open>
  Claim C9. From every editor state, entering crop mode, editing the region in any way
  and cancelling should leave \<^verbatim>\<open>cropMode\<close> false and \<^verbatim>\<open>crop.enabled\<close> as it was, and
  make \<^verbatim>\<open>crop.region\<close> the region it had on entry if crop was enabled, the full frame if
  it was not.

  The code does not restore an enabled region. \<^verbatim>\<open>cancelCrop\<close> hands \<^verbatim>\<open>setState\<close> an
  updater that reads \<^verbatim>\<open>savedCropRegionRef.current\<close> and, in its next statement, sets that
  reference to \<^verbatim>\<open>null\<close>; the updater runs at the next render and finds \<^verbatim>\<open>null\<close>. With
  an accepted crop of \<open>(10, 10, 50, 50)\<close>, entering crop mode saves that region, and
  cancelling leaves crop enabled with the full frame as its region.
\<close>

theorem cancel_loses_saved_region:
  "savedCropRegionRef (enterCropMode croppedEditor)
     = Some \<lparr>region_x = 10, region_y = 10, region_width = 50, region_height = 50\<rparr>
   \<and> region (crop (config (state (enterCropMode croppedEditor))))
     = \<lparr>region_x = 10, region_y = 10, region_width = 50, region_height = 50\<rparr>
   \<and> region (crop (config (state (cancelCrop (enterCropMode croppedEditor)))))
     = \<lparr>region_x = 0, region_y = 0, region_width = 100, region_height = 100\<rparr>
   \<and> enabled (crop (config (state (cancelCrop (enterCropMode croppedEditor)))))
   \<and> \<not> cropMode (crop (config (state (cancelCrop (enterCropMode croppedEditor)))))"
  by (simp add: cancelCrop_def cancelCropUpdater_def enterCropMode_def enterCropModeUpdater_def
      croppedEditor_def setCrop_def DEFAULT_CONFIG_def fullFrame_def Let_def)

section \<open>Gradient colours\<close>

lemma filter_index_none: "i < n \<Longrightarrow> filter (\<lambda>(j, _). j = i) (enumerate n xs) = []"
  by (induction xs arbitrary: n) auto

lemma filter_index_le1: "length (filter (\<lambda>(j, _). j = i) (enumerate n xs)) \<le> 1"
  by (induction xs arbitrary: n) (auto simp: filter_index_none)

lemma removeColor_length:
  assumes "2 \<le> length (colors g)"
  shows "2 \<le> length (colors (removeColor i g))"
proof -
  let ?e = "enumerate 0 (colors g)"
  have "length (filter (\<lambda>(j, _). j \<noteq> i) ?e) + length (filter (\<lambda>(j, _). j = i) ?e) = length ?e"
    using sum_length_filter_compl [of "\<lambda>(j, _). j \<noteq> i" ?e] by (simp add: case_prod_unfold)
  then have "length (colors g) \<le> length (filter (\<lambda>(j, _). j \<noteq> i) ?e) + 1"
    using filter_index_le1 [of i 0 "colors g"] by simp
  then show ?thesis using assms by (auto simp: removeColor_def)
qed

lemma preset_length: "g \<in> set PRESET_GRADIENTS \<Longrightarrow> 2 \<le> length (colors g)"
  by (auto simp: PRESET_GRADIENTS_def)

lemma gradientStep_length:
  assumes "2 \<le> length (colors g)"
  shows "2 \<le> length (colors (gradientStep g a))"
proof (cases a)
  case (ApplyPreset k)
  then show ?thesis using assms preset_length [of "PRESET_GRADIENTS ! k"] by simp
next
  case (RemoveColor i)
  then show ?thesis using assms removeColor_length by simp
qed (use assms in \<open>auto simp: handleColorChange_def addColor_def\<close>)

lemma actions_length:
  "2 \<le> length (colors g) \<Longrightarrow> 2 \<le> length (colors (foldl gradientStep g acts))"
  by (induction acts arbitrary: g) (simp_all add: gradientStep_length)

text \<open>
  Claim C10. Starting from any preset gradient, every gradient the sidebar's actions can
  reach has at least two colours, so the step \<open>1 / (colors.length - 1)\<close> of the export
  gradient's colour stops never divides by zero.
\<close>

theorem gradient_keeps_two_colours:
  assumes "g0 \<in> set PRESET_GRADIENTS" and "g = foldl gradientStep g0 acts"
  shows "2 \<le> length (colors g)
       \<and> createGradientStep (colors g) = Some (1 / (rat_of_nat (length (colors g)) - 1))
       \<and> (\<exists>stops. createGradient g = Some (ColorStops (gtype g) stops))"
proof -
  have l: "2 \<le> length (colors g)"
    using assms preset_length actions_length by simp
  then have "rat_of_nat (length (colors g)) - 1 \<noteq> 0" by auto
  then have "createGradientStep (colors g) = Some (1 / (rat_of_nat (length (colors g)) - 1))"
    by (simp add: createGradientStep_def)
  moreover have "length (colors g) \<noteq> 1" using l by simp
  ultimately show ?thesis using l by (simp add: createGradient_def)
qed

text \<open>From the default gradient (three colours): two removals, of which the second is
  refused, an addition, and a removal at a position that does not exist.\<close>

theorem gradient_keeps_two_colours_witness:
  "DEFAULT_GRADIENT \<in> set PRESET_GRADIENTS
   \<and> length (colors (foldl gradientStep DEFAULT_GRADIENT
                [RemoveColor 0, RemoveColor 0, AddColor, RemoveColor 5])) = 3
   \<and> createGradientStep (colors (foldl gradientStep DEFAULT_GRADIENT
                [RemoveColor 0, RemoveColor 0, AddColor, RemoveColor 5])) = Some (1 / 2)"
  using gradient_keeps_two_colours
          [of DEFAULT_GRADIENT _ "[RemoveColor 0, RemoveColor 0, AddColor, RemoveColor 5]",
           OF _ refl]
  by (simp add: DEFAULT_GRADIENT_def PRESET_GRADIENTS_def removeColor_def addColor_def)

section \<open>Preview geometry\<close>

text \<open>
  Claim C5. For a natural size of 1920 by 1080, scale 1 and a window 1000 pixels high
  (height ceiling 700 pixels), the display size should be 700 by 393, rounded.

  It is not, whichever of the two numbers is read as the width: the ceiling of 70 percent
  of the window's height applies to the height, and a 1920 by 1080 video is higher than 700
  pixels, so the display height is 700 and the width follows from the aspect ratio.
\<close>

theorem display_size_1920x1080_not_700x393:
  "\<not> (Math_round (width (the (displaySizeEffect 1000 \<lparr>width = 1920, height = 1080\<rparr> 1))) = 700
      \<and> Math_round (height (the (displaySizeEffect 1000 \<lparr>width = 1920, height = 1080\<rparr> 1))) = 393)
   \<and> \<not> (Math_round (width (the (displaySizeEffect 1000 \<lparr>width = 1920, height = 1080\<rparr> 1))) = 393
      \<and> Math_round (height (the (displaySizeEffect 1000 \<lparr>width = 1920, height = 1080\<rparr> 1))) = 700)"
  by (simp add: displaySizeEffect_def Let_def Math_round_def)

text \<open>
  Claim C5, amended. For a natural size of 1920 by 1080, scale 1 and a window 1000 pixels
  high, the display size is \<open>11200/9\<close> by 700, that is 1244 by 700 rounded: the height
  is the ceiling of 700 pixels and the aspect ratio is kept exactly.
\<close>

theorem display_size_1920x1080:
  "displaySizeEffect 1000 \<lparr>width = 1920, height = 1080\<rparr> 1
     = Some \<lparr>width = 11200 / 9, height = 700\<rparr>
   \<and> Math_round (11200 / 9) = 1244
   \<and> (11200 / 9) / 700 = (1920 / 1080 :: rat)"
  by (simp add: displaySizeEffect_def Let_def Math_round_def)

text \<open>
  Claim C7. Whatever the padding and the scale factor, shadow intensity 0 gives blur 0 and
  opacity 0, and the canvas (video size plus twice the shadow padding, the shadow padding
  being padding times scale factor) has the size it has with shadow intensity 20: the
  canvas size does not depend on the shadow setting. The scale factor is a quotient by the
  display width, taken not to be zero.
\<close>

theorem shadow_zero_keeps_canvas:
  assumes "frameDisplayWidth d cfg \<noteq> 0"
  shows "shadowBlur (drawFrame n d (cfg\<lparr>shadow := 0\<rparr>)) = 0
       \<and> shadowOpacity (drawFrame n d (cfg\<lparr>shadow := 0\<rparr>)) = 0
       \<and> canvasWidth (drawFrame n d (cfg\<lparr>shadow := 0\<rparr>))
           = canvasWidth (drawFrame n d (cfg\<lparr>shadow := 20\<rparr>))
       \<and> canvasHeight (drawFrame n d (cfg\<lparr>shadow := 0\<rparr>))
           = canvasHeight (drawFrame n d (cfg\<lparr>shadow := 20\<rparr>))
       \<and> canvasWidth (drawFrame n d (cfg\<lparr>shadow := 0\<rparr>))
           = frame_videoWidth (drawFrame n d cfg)
             + 2 * (padding cfg * frame_scaleFactor (drawFrame n d cfg))
       \<and> canvasHeight (drawFrame n d (cfg\<lparr>shadow := 0\<rparr>))
           = frame_videoHeight (drawFrame n d cfg)
             + 2 * (padding cfg * frame_scaleFactor (drawFrame n d cfg))"
  by (simp add: drawFrame_def Let_def)

theorem shadow_zero_keeps_canvas_witness:
  "frameDisplayWidth display1400 DEFAULT_CONFIG \<noteq> 0
   \<and> shadowBlur (drawFrame source4000 display1400 (DEFAULT_CONFIG\<lparr>shadow := 0\<rparr>)) = 0
   \<and> shadowOpacity (drawFrame source4000 display1400 (DEFAULT_CONFIG\<lparr>shadow := 0\<rparr>)) = 0
   \<and> canvasWidth (drawFrame source4000 display1400 (DEFAULT_CONFIG\<lparr>shadow := 0\<rparr>)) = 30400 / 7
   \<and> canvasWidth (drawFrame source4000 display1400 (DEFAULT_CONFIG\<lparr>shadow := 20\<rparr>)) = 30400 / 7
   \<and> shadowBlur (drawFrame source4000 display1400 (DEFAULT_CONFIG\<lparr>shadow := 20\<rparr>)) = 1080 / 7"
  using shadow_zero_keeps_canvas [of display1400 DEFAULT_CONFIG source4000]
  by (simp add: frameDisplayWidth_def drawFrame_def DEFAULT_CONFIG_def display1400_def
      source4000_def Let_def)

section \<open>Export dimensions\<close>

lemma limits_integral:
  "\<exists>a b. qualityLimits q p = \<lparr>width = of_int a, height = of_int b\<rparr> \<and> 0 < a \<and> 0 < b"
proof (cases q; cases p)
qed (auto simp: qualityLimits_def
      intro: exI[of _ 720] exI[of _ 1280] exI[of _ 1080] exI[of _ 1920] exI[of _ 1440]
        exI[of _ 2560])

lemma clampToQuality_fits:
  assumes "0 < totalWidth e" "0 < totalHeight e"
      and L: "limits = \<lparr>width = of_int a, height = of_int b\<rparr>"
  shows "totalWidth (clampToQuality limits e) \<le> width limits
       \<and> totalHeight (clampToQuality limits e) \<le> height limits"
proof (cases "totalWidth e > width limits \<or> totalHeight e > height limits")
  case False
  then show ?thesis by (simp add: clampToQuality_def)
next
  case True
  define c where "c = min (width limits / totalWidth e) (height limits / totalHeight e)"
  have "c \<le> width limits / totalWidth e" "c \<le> height limits / totalHeight e"
    by (simp_all add: c_def)
  then have "totalWidth e * c \<le> width limits" "totalHeight e * c \<le> height limits"
    using assms(1,2) by (simp_all add: pos_le_divide_eq mult.commute)
  then have "Math_round (totalWidth e * c) \<le> width limits"
    and "Math_round (totalHeight e * c) \<le> height limits"
    using L Math_round_le by simp_all
  then show ?thesis using True by (simp add: clampToQuality_def Let_def c_def)
qed

text \<open>
  Claim C6. The clamp of the export dimensions is idempotent: applied a second time to the
  total size, video size and scale factor the first application produced, it changes
  nothing, because the total size it produced is within the tier's ceiling. The sizes it
  divides by are taken to be positive.
\<close>

theorem clampToQuality_idempotent:
  assumes "0 < totalWidth e" "0 < totalHeight e"
  shows "clampToQuality (qualityLimits q p) (clampToQuality (qualityLimits q p) e)
           = clampToQuality (qualityLimits q p) e
       \<and> totalWidth (clampToQuality (qualityLimits q p) e) \<le> width (qualityLimits q p)
       \<and> totalHeight (clampToQuality (qualityLimits q p) e) \<le> height (qualityLimits q p)"
proof -
  obtain a b where L: "qualityLimits q p = \<lparr>width = of_int a, height = of_int b\<rparr>"
    using limits_integral by blast
  have fits: "totalWidth (clampToQuality (qualityLimits q p) e) \<le> width (qualityLimits q p)
       \<and> totalHeight (clampToQuality (qualityLimits q p) e) \<le> height (qualityLimits q p)"
    using clampToQuality_fits [OF assms L] .
  then have "clampToQuality (qualityLimits q p) (clampToQuality (qualityLimits q p) e)
           = clampToQuality (qualityLimits q p) e"
    by (subst clampToQuality_def) (simp add: not_less [symmetric])
  with fits show ?thesis by simp
qed

theorem clampToQuality_idempotent_witness:
  "(0::rat) < 4000 \<and> (0::rat) < 3000
   \<and> clampToQuality (qualityLimits Q720p False)
        \<lparr>totalWidth = 4000, totalHeight = 3000, videoWidth = 3800, videoHeight = 2800,
         scaleFactor = 2\<rparr>
       = \<lparr>totalWidth = 960, totalHeight = 720, videoWidth = 912, videoHeight = 672,
          scaleFactor = 12 / 25\<rparr>
   \<and> clampToQuality (qualityLimits Q720p False)
        \<lparr>totalWidth = 960, totalHeight = 720, videoWidth = 912, videoHeight = 672,
         scaleFactor = 12 / 25\<rparr>
       = \<lparr>totalWidth = 960, totalHeight = 720, videoWidth = 912, videoHeight = 672,
          scaleFactor = 12 / 25\<rparr>"
  using clampToQuality_idempotent
          [of "\<lparr>totalWidth = 4000, totalHeight = 3000, videoWidth = 3800, videoHeight = 2800,
               scaleFactor = 2\<rparr>" Q720p False]
  by (simp add: clampToQuality_def qualityLimits_def Math_round_def Let_def)

lemma export_4000x3000_720p:
  assumes nocrop: "\<not> enabled (crop cfg)" and pad: "0 \<le> padding cfg" and disp: "0 < width d"
  defines "u \<equiv> unclampedDimensions source4000 d cfg"
  defines "e \<equiv> exportDimensions source4000 d cfg Q720p"
  shows "totalHeight e = 720"
    and "totalWidth e = Math_round (totalWidth u * (720 / totalHeight u))"
    and "totalWidth u * (720 / totalHeight u) \<le> 960"
    and "0 < totalWidth u" and "0 < totalHeight u"
proof -
  define k where "k = padding cfg * (4000 / width d)"
  have k: "0 \<le> k" using pad disp by (simp add: k_def)
  have u: "totalWidth u = 4000 + k * 2" "totalHeight u = 3000 + k * 2"
    "videoWidth u = 4000" "videoHeight u = 3000"
    using nocrop by (simp_all add: u_def unclampedDimensions_def source4000_def Let_def k_def)
  show tw: "0 < totalWidth u" and th: "0 < totalHeight u" using u k by simp_all
  have m: "min (1280 / totalWidth u) (720 / totalHeight u) = 720 / totalHeight u"
  proof -
    have "720 / totalHeight u \<le> 1280 / totalWidth u"
      using tw th k u by (simp add: field_simps)
    then show ?thesis by simp
  qed
  have guard: "totalWidth u > 1280" using u k by simp
  have e: "e = clampToQuality \<lparr>width = 1280, height = 720\<rparr> u"
    using u by (simp add: e_def exportDimensions_def Let_def u_def [symmetric] qualityLimits_def)
  have "totalHeight u * (720 / totalHeight u) = 720" using th by simp
  then show "totalHeight e = 720"
    using guard m Math_round_int [of 720] by (simp add: e clampToQuality_def Let_def)
  show "totalWidth e = Math_round (totalWidth u * (720 / totalHeight u))"
    using guard m by (simp add: e clampToQuality_def Let_def)
  show "totalWidth u * (720 / totalHeight u) \<le> 960"
    using th k u by (simp add: field_simps)
qed

text \<open>
  Claim C4. For every 4000 by 3000 source exported at tier 720p, with any padding that is
  not negative, the export dimensions should be at most 1280 by 720, keep the aspect ratio
  of the padded composite to within a pixel of rounding, and the delivered pixel
  dimensions should be even.

  The last part fails for a delivery as WebM, which has the size of the export canvas: with
  the default padding of 60 and a display width of 1400 (a window 1500 pixels high) the
  canvas, and the WebM, are 935 by 720.
\<close>

theorem quality_clamp_webm_odd_width:
  "deliveredSize webm (qualityLimits Q720p False)
       (exportDimensions source4000 display1400 DEFAULT_CONFIG Q720p)
     = \<lparr>width = 935, height = 720\<rparr>
   \<and> \<not> evenPixels (width (deliveredSize webm (qualityLimits Q720p False)
                        (exportDimensions source4000 display1400 DEFAULT_CONFIG Q720p)))"
  by (simp add: deliveredSize_def qualityLimits_def exportDimensions_def unclampedDimensions_def
      clampToQuality_def source4000_def display1400_def DEFAULT_CONFIG_def fullFrame_def
      evenPixels_def Math_round_def Math_trunc_def Let_def)

text \<open>
  Claim C4, amended. For every 4000 by 3000 source (crop not enabled) exported at tier
  720p, with any padding that is not negative and any display width above zero: the export
  dimensions are at most 1280 by 720; the height is the composite's height times
  \<open>720 / height\<close> and the width is within half a pixel of the composite's width times
  the same factor; a delivery as MP4 has even pixel dimensions (the transcoder's scale
  filter truncates each to an even number), while a delivery as WebM has the export
  dimensions themselves, whatever their parity.
\<close>

theorem quality_clamp_4000x3000_720p:
  assumes nocrop: "\<not> enabled (crop cfg)" and pad: "0 \<le> padding cfg" and disp: "0 < width d"
      and u: "u = unclampedDimensions source4000 d cfg"
      and e: "e = exportDimensions source4000 d cfg Q720p"
      and lim: "limits = qualityLimits Q720p False"
  shows "totalWidth e \<le> 1280 \<and> totalHeight e \<le> 720
       \<and> \<bar>totalWidth e - totalWidth u * (720 / totalHeight u)\<bar> \<le> 1 / 2
       \<and> totalHeight e = totalHeight u * (720 / totalHeight u)
       \<and> evenPixels (width (deliveredSize mp4 limits e))
       \<and> evenPixels (height (deliveredSize mp4 limits e))
       \<and> deliveredSize webm limits e = \<lparr>width = totalWidth e, height = totalHeight e\<rparr>"
proof -
  note dims = export_4000x3000_720p [OF nocrop pad disp, folded u e]
  have w960: "totalWidth e \<le> 960"
    using Math_round_le [of "totalWidth u * (720 / totalHeight u)" 960] dims(2,3) by simp
  have near: "\<bar>totalWidth e - totalWidth u * (720 / totalHeight u)\<bar> \<le> 1 / 2"
    using Math_round_near dims(2) by simp
  have pos: "0 \<le> totalWidth u * (720 / totalHeight u)" using dims(4,5) by simp
  have tr: "Math_trunc (totalWidth e) = totalWidth e"
    using Math_trunc_round [OF pos] dims(2) by simp
  have trh: "Math_trunc (totalHeight e) = totalHeight e"
    using dims(1) by (simp add: Math_trunc_def)
  show ?thesis
    using w960 near dims(1,5) tr trh
    by (simp add: deliveredSize_def Let_def evenPixels_ffmpegScale)
qed

theorem quality_clamp_4000x3000_720p_witness:
  "\<not> enabled (crop DEFAULT_CONFIG) \<and> 0 \<le> padding DEFAULT_CONFIG \<and> 0 < width display1400
   \<and> totalWidth (exportDimensions source4000 display1400 DEFAULT_CONFIG Q720p) = 935
   \<and> totalHeight (exportDimensions source4000 display1400 DEFAULT_CONFIG Q720p) = 720
   \<and> totalWidth (unclampedDimensions source4000 display1400 DEFAULT_CONFIG) = 30400 / 7
   \<and> totalHeight (unclampedDimensions source4000 display1400 DEFAULT_CONFIG) = 23400 / 7
   \<and> deliveredSize mp4 (qualityLimits Q720p False)
        (exportDimensions source4000 display1400 DEFAULT_CONFIG Q720p)
       = \<lparr>width = 934, height = 720\<rparr>"
  using quality_clamp_4000x3000_720p [of DEFAULT_CONFIG display1400, OF _ _ _ refl refl refl]
  by (simp add: deliveredSize_def qualityLimits_def exportDimensions_def unclampedDimensions_def
      clampToQuality_def source4000_def display1400_def DEFAULT_CONFIG_def fullFrame_def
      ffmpegScale_def Math_round_def Math_trunc_def Let_def)

section \<open>The export pipeline: what each effect changes\<close>

lemma updateStatus_fields [simp]:
  "video (updateStatus m s) = video s" "cancelRef (updateStatus m s) = cancelRef s"
  "wasLooping (updateStatus m s) = wasLooping s" "recorderState (updateStatus m s) = recorderState s"
  "stopEventDue (updateStatus m s) = stopEventDue s" "recordingStopped (updateStatus m s) = recordingStopped s"
  "exportAnimationId (updateStatus m s) = exportAnimationId s" "endedListener (updateStatus m s) = endedListener s"
  "chunks (updateStatus m s) = chunks s" "downloads (updateStatus m s) = downloads s"
  "alerts (updateStatus m s) = alerts s" "promise (updateStatus m s) = promise s"
  "cancelSeen (updateStatus m s) = cancelSeen s"
  by (simp_all add: updateStatus_def)

lemma seen_fields [simp]:
  "video (seen c s) = video s" "cancelRef (seen c s) = cancelRef s"
  "wasLooping (seen c s) = wasLooping s" "recorderState (seen c s) = recorderState s"
  "stopEventDue (seen c s) = stopEventDue s" "recordingStopped (seen c s) = recordingStopped s"
  "exportAnimationId (seen c s) = exportAnimationId s" "endedListener (seen c s) = endedListener s"
  "chunks (seen c s) = chunks s" "downloads (seen c s) = downloads s"
  "alerts (seen c s) = alerts s" "promise (seen c s) = promise s"
  "cancelSeen (seen c s) = cancelSeen s @ [c]"
  by (simp_all add: seen_def)

lemma pressCancel_fields [simp]:
  "video (pressCancel b s) = video s" "cancelRef (pressCancel b s) = (cancelRef s \<or> b)"
  "wasLooping (pressCancel b s) = wasLooping s" "recorderState (pressCancel b s) = recorderState s"
  "stopEventDue (pressCancel b s) = stopEventDue s" "recordingStopped (pressCancel b s) = recordingStopped s"
  "exportAnimationId (pressCancel b s) = exportAnimationId s" "endedListener (pressCancel b s) = endedListener s"
  "chunks (pressCancel b s) = chunks s" "downloads (pressCancel b s) = downloads s"
  "alerts (pressCancel b s) = alerts s" "promise (pressCancel b s) = promise s"
  "cancelSeen (pressCancel b s) = cancelSeen s"
  by (simp_all add: pressCancel_def)

lemma resolve_fields [simp]:
  "video (resolve s) = video s" "cancelRef (resolve s) = cancelRef s"
  "wasLooping (resolve s) = wasLooping s" "recorderState (resolve s) = recorderState s"
  "stopEventDue (resolve s) = stopEventDue s" "recordingStopped (resolve s) = recordingStopped s"
  "exportAnimationId (resolve s) = exportAnimationId s" "endedListener (resolve s) = endedListener s"
  "chunks (resolve s) = chunks s" "downloads (resolve s) = downloads s"
  "alerts (resolve s) = alerts s"
  "promise (resolve s) = (if promise s = Pending then Resolved else promise s)"
  "cancelSeen (resolve s) = cancelSeen s"
  by (simp_all add: resolve_def)

lemma reject_fields [simp]:
  "video (reject m s) = video s" "cancelRef (reject m s) = cancelRef s"
  "wasLooping (reject m s) = wasLooping s" "recorderState (reject m s) = recorderState s"
  "stopEventDue (reject m s) = stopEventDue s" "recordingStopped (reject m s) = recordingStopped s"
  "exportAnimationId (reject m s) = exportAnimationId s" "endedListener (reject m s) = endedListener s"
  "chunks (reject m s) = chunks s" "downloads (reject m s) = downloads s"
  "alerts (reject m s) = alerts s"
  "promise (reject m s) = (if promise s = Pending then Rejected m else promise s)"
  "cancelSeen (reject m s) = cancelSeen s"
  by (simp_all add: reject_def)

lemma saveFile_fields [simp]:
  "video (saveFile x s) = video s" "cancelRef (saveFile x s) = cancelRef s"
  "wasLooping (saveFile x s) = wasLooping s" "recorderState (saveFile x s) = recorderState s"
  "stopEventDue (saveFile x s) = stopEventDue s" "recordingStopped (saveFile x s) = recordingStopped s"
  "exportAnimationId (saveFile x s) = exportAnimationId s" "endedListener (saveFile x s) = endedListener s"
  "chunks (saveFile x s) = chunks s" "downloads (saveFile x s) = downloads s @ [x]"
  "alerts (saveFile x s) = alerts s" "promise (saveFile x s) = promise s"
  "cancelSeen (saveFile x s) = cancelSeen s"
  by (simp_all add: saveFile_def)

lemma alert_fields [simp]:
  "video (alert m s) = video s" "cancelRef (alert m s) = cancelRef s"
  "wasLooping (alert m s) = wasLooping s" "recorderState (alert m s) = recorderState s"
  "stopEventDue (alert m s) = stopEventDue s" "recordingStopped (alert m s) = recordingStopped s"
  "exportAnimationId (alert m s) = exportAnimationId s" "endedListener (alert m s) = endedListener s"
  "chunks (alert m s) = chunks s" "downloads (alert m s) = downloads s"
  "alerts (alert m s) = alerts s @ [m]" "promise (alert m s) = promise s"
  "cancelSeen (alert m s) = cancelSeen s"
  by (simp_all add: alert_def)

lemma setLoop_fields [simp]:
  "loop (video (setLoop b s)) = b" "paused (video (setLoop b s)) = paused (video s)"
  "ended (video (setLoop b s)) = ended (video s)" "cancelRef (setLoop b s) = cancelRef s"
  "wasLooping (setLoop b s) = wasLooping s" "recorderState (setLoop b s) = recorderState s"
  "stopEventDue (setLoop b s) = stopEventDue s" "recordingStopped (setLoop b s) = recordingStopped s"
  "exportAnimationId (setLoop b s) = exportAnimationId s" "endedListener (setLoop b s) = endedListener s"
  "chunks (setLoop b s) = chunks s" "downloads (setLoop b s) = downloads s"
  "alerts (setLoop b s) = alerts s" "promise (setLoop b s) = promise s"
  "cancelSeen (setLoop b s) = cancelSeen s"
  by (simp_all add: setLoop_def)

lemma pause_fields [simp]:
  "loop (video (pause s)) = loop (video s)" "paused (video (pause s)) = True"
  "ended (video (pause s)) = ended (video s)" "cancelRef (pause s) = cancelRef s"
  "wasLooping (pause s) = wasLooping s" "recorderState (pause s) = recorderState s"
  "stopEventDue (pause s) = stopEventDue s" "recordingStopped (pause s) = recordingStopped s"
  "exportAnimationId (pause s) = exportAnimationId s" "endedListener (pause s) = endedListener s"
  "chunks (pause s) = chunks s" "downloads (pause s) = downloads s"
  "alerts (pause s) = alerts s" "promise (pause s) = promise s"
  "cancelSeen (pause s) = cancelSeen s"
  by (simp_all add: pause_def)

lemma fallback_fields [simp]:
  "video (fallbackToWebM m s) = video s" "cancelRef (fallbackToWebM m s) = cancelRef s"
  "downloads (fallbackToWebM m s) = downloads s @ [''webm'']"
  "alerts (fallbackToWebM m s) = alerts s @ [''MP4 conversion failed: '' @ m @ ''. Downloaded as WebM instead.'']"
  "promise (fallbackToWebM m s) = (if promise s = Pending then Resolved else promise s)"
  "cancelSeen (fallbackToWebM m s) = cancelSeen s"
  by (simp_all add: fallbackToWebM_def)

lemma ondataavailable_fields [simp]:
  "video (ondataavailable n s) = video s" "cancelRef (ondataavailable n s) = cancelRef s"
  "wasLooping (ondataavailable n s) = wasLooping s"
  "recorderState (ondataavailable n s) = recorderState s"
  "stopEventDue (ondataavailable n s) = stopEventDue s"
  "downloads (ondataavailable n s) = downloads s"
  "alerts (ondataavailable n s) = alerts s" "promise (ondataavailable n s) = promise s"
  "cancelSeen (ondataavailable n s) = cancelSeen s"
  by (simp_all add: ondataavailable_def)

lemma statuses_fields [simp]:
  "statuses (updateStatus m s) = statuses s @ [m]" "statuses (seen c s) = statuses s"
  "statuses (pressCancel b s) = statuses s" "statuses (resolve s) = statuses s"
  "statuses (reject m s) = statuses s" "statuses (saveFile x s) = statuses s"
  "statuses (alert m s) = statuses s" "statuses (setLoop b s) = statuses s"
  "statuses (pause s) = statuses s" "statuses (ondataavailable n s) = statuses s"
  by (simp_all add: updateStatus_def seen_def pressCancel_def resolve_def reject_def
      saveFile_def alert_def setLoop_def pause_def ondataavailable_def)

section \<open>Fallback when transcoding fails\<close>


lemma onstop_cancelled:
  "cancelRef s \<Longrightarrow>
   onstop env fmt s = reject ''Export cancelled'' (seen AtRecorderStop (setLoop (wasLooping s) s))"
  by (simp add: onstop_def isCancelled_def Let_def)













section \<open>Cancellation\<close>

text \<open>Where the flag is seen before transcoding, nothing is saved: the lemmas below follow
  the flag through the check before recording, the recording, and the recorder's stop
  handler, in an export whose recorder does not fail.\<close>

lemma onstop_seen:
  "\<not> cancelRef s \<Longrightarrow>
   cancelSeen (onstop env fmt s) = cancelSeen s \<or> cancelSeen (onstop env fmt s) = cancelSeen s @ [AtTranscode]"
  by (simp add: onstop_def convertToMp4_def writeInput_def verifyAndEncode_def
      encodeMp4_def isCancelled_def Let_def
      split: option.split sum.split FileData.split)

lemma finishRecording_outcome:
  assumes "stopState (loop v) s"
  shows "cancelOutcome v (finishRecording env fmt s)"
proof (cases "cancelRef s \<or> cancelBeforeStop env")
  case True
  then show ?thesis using assms
    by (auto simp: finishRecording_def onstop_cancelled stopState_def cancelOutcome_def)
next
  case False
  let ?s = "ondataavailable (finalData env) (pressCancel (cancelBeforeStop env) s)"
  from False assms have "cancelSeen s = []" by (auto simp: stopState_def)
  moreover have "\<not> cancelRef ?s" using False by simp
  ultimately have "cancelSeen (onstop (ffmpeg env) fmt ?s) = [] \<or> cancelSeen (onstop (ffmpeg env) fmt ?s) = [AtTranscode]"
    using onstop_seen [of ?s "ffmpeg env" fmt] by simp
  then show ?thesis by (auto simp: finishRecording_def cancelOutcome_def)
qed

lemma recordFrame_step:
  assumes "recordingInv w s"
  shows "if stopEventDue (recordFrame s) then stopState w (recordFrame s) else recordingInv w (recordFrame s)"
  using assms
  by (auto simp: recordingInv_def stopState_def recordFrame_def stopRecorder_def isCancelled_def Let_def)

lemma recordingStep_step:
  assumes "recordingInv w s" and "e \<noteq> RecorderError"
  shows "if stopEventDue (recordingStep s e) then stopState w (recordingStep s e)
         else recordingInv w (recordingStep s e)"
proof (cases e)
  case AnimationFrame
  then show ?thesis using recordFrame_step [OF assms(1)] assms by (auto simp: recordingInv_def)
next
  case EndedEvent
  then show ?thesis using assms
    by (auto simp: recordingInv_def stopState_def stopRecording_def stopRecorder_def)
qed (use assms in \<open>auto simp: recordingInv_def stopState_def ondataavailable_def\<close>)

lemma recordLoop_outcome:
  "recordingInv (loop v) s \<Longrightarrow> RecorderError \<notin> set es \<Longrightarrow>
   cancelOutcome v (recordLoop env fmt es s)"
proof (induction es arbitrary: s)
  case Nil
  then show ?case by (simp add: recordingInv_def cancelOutcome_def)
next
  case (Cons e es)
  from Cons.prems have e: "e \<noteq> RecorderError" and es: "RecorderError \<notin> set es"
    by auto
  show ?case
  proof (cases "stopEventDue (recordingStep s e)")
    case True
    then have "stopState (loop v) (recordingStep s e)"
      using recordingStep_step [OF Cons.prems(1) e] by simp
    then show ?thesis using True by (simp add: finishRecording_outcome)
  next
    case False
    then have "recordingInv (loop v) (recordingStep s e)"
      using recordingStep_step [OF Cons.prems(1) e] by simp
    then show ?thesis using False Cons.IH es by simp
  qed
qed

lemma prepareRecording_inv:
  assumes "promise s = Pending" "downloads s = []" "wasLooping s = w" "cancelSeen s = []"
      and "\<not> stopEventDue s"
  shows "recordingInv w ((prepareRecording env s)\<lparr>video := (video (prepareRecording env s))\<lparr>paused := False\<rparr>\<rparr>)"
    and "promise (prepareRecording env s) = Pending" 
    and "cancelSeen (prepareRecording env s) = []"
  using assms by (simp_all add: prepareRecording_def recordingInv_def Let_def)

lemma recordingInv_listener:
  "recordingInv w s \<Longrightarrow> recordingInv w (s\<lparr>endedListener := True\<rparr>)"
  by (simp add: recordingInv_def)

lemma startRecording_outcome:
  assumes "promise s = Pending" "downloads s = []" "wasLooping s = loop v" "cancelSeen s = []"
      and "\<not> stopEventDue s"
      and noError: "RecorderError \<notin> set (events env)"
  shows "cancelOutcome v (startRecording env fmt s)"
proof (cases "playResult env")
  case (Some e)
  then show ?thesis using prepareRecording_inv(2,3) [OF assms(1-5), of env]
    by (simp add: startRecording_def Let_def cancelOutcome_def)
next
  case None
  define s4 where "s4 = (prepareRecording env s)\<lparr>video := (video (prepareRecording env s))\<lparr>paused := False\<rparr>\<rparr>"
  have inv: "recordingInv (loop v) s4"
    unfolding s4_def by (rule prepareRecording_inv(1) [OF assms(1-5)])
  have run: "startRecording env fmt s =
      (if stopEventDue (recordFrame s4) then finishRecording env fmt (recordFrame s4)
       else recordLoop env fmt (events env) ((recordFrame s4)\<lparr>endedListener := True\<rparr>))"
    using None by (simp add: startRecording_def Let_def s4_def)
  show ?thesis
  proof (cases "stopEventDue (recordFrame s4)")
    case True
    then have "stopState (loop v) (recordFrame s4)" using recordFrame_step [OF inv] by simp
    then show ?thesis using True run by (simp add: finishRecording_outcome)
  next
    case False
    then have "recordingInv (loop v) (recordFrame s4)" using recordFrame_step [OF inv] by simp
    then show ?thesis
      using False run noError by (simp add: recordLoop_outcome recordingInv_listener)
  qed
qed

lemma exportVideo_outcome:
  assumes noError: "RecorderError \<notin> set (events env)"
  shows "cancelOutcome v (exportVideo N fmt env (startExport v c))"
proof -
  let ?s1 = "updateStatus ''Preparing export...'' (startExport v c)"
  let ?s2 = "setLoop False (?s1\<lparr>wasLooping := loop (video ?s1)\<rparr>)"
  let ?s3 = "(if \<not> durationKnown env
              then pressCancel (cancelDuringMetadata env) (updateStatus ''Loading video metadata...'' ?s2)
              else ?s2)"
  have s3: "promise ?s3 = Pending" "downloads ?s3 = []" "wasLooping ?s3 = loop v" "cancelSeen ?s3 = []"
     "\<not> stopEventDue ?s3" "paused (video ?s3) = paused v"
    by (simp_all add: startExport_def)
  consider (notReady) "\<not> refsAttached env \<or> width N = 0"
    | (noContext) "\<not> (\<not> refsAttached env \<or> width N = 0)" "\<not> contextAvailable env"
    | (cancelled) "\<not> (\<not> refsAttached env \<or> width N = 0)" "contextAvailable env" "isCancelled ?s3"
    | (records) "\<not> (\<not> refsAttached env \<or> width N = 0)" "contextAvailable env" "\<not> isCancelled ?s3"
    by blast
  then show ?thesis
  proof cases
    case notReady
    then show ?thesis by (simp add: exportVideo_def Let_def cancelOutcome_def startExport_def)
  next
    case noContext
    then show ?thesis by (simp add: exportVideo_def Let_def cancelOutcome_def startExport_def)
  next
    case cancelled
    then have "exportVideo N fmt env (startExport v c) = resolve (seen AtPreparing (setLoop (wasLooping ?s3) ?s3))"
      by (simp add: exportVideo_def Let_def)
    then show ?thesis using s3 by (simp add: cancelOutcome_def)
  next
    case records
    then have "exportVideo N fmt env (startExport v c) = startRecording env fmt ?s3"
      by (simp add: exportVideo_def Let_def)
    then show ?thesis using startRecording_outcome [of ?s3 v env fmt] s3 noError by simp
  qed
qed


lemma cancel_seen_before_transcoding:
  assumes "RecorderError \<notin> set (events env)"
      and "f = exportVideo videoNaturalSize format env (startExport v cancelled)"
      and "cancelSeen f = firstSeen # later"
  shows "(firstSeen = AtPreparing \<longrightarrow>
            downloads f = [] \<and> loop (video f) = loop v \<and> paused (video f) = paused v
            \<and> promise f = Resolved)
       \<and> (firstSeen = AtRecordFrame \<longrightarrow>
            downloads f = [] \<and> loop (video f) = loop v \<and> paused (video f)
            \<and> promise f = Rejected ''Export cancelled'')
       \<and> (firstSeen = AtRecorderStop \<longrightarrow>
            downloads f = [] \<and> loop (video f) = loop v
            \<and> promise f = Rejected ''Export cancelled'')"
  using exportVideo_outcome [of env v videoNaturalSize format cancelled] assms
  by (cases firstSeen) (simp_all add: cancelOutcome_def)

text \<open>
  Claim C1. Whenever the cancellation flag is seen set, at whatever stage (preparing,
  recording, transcoding), the export should end without saving a file, with the video's
  loop flag as it was before the export and the video paused, and report the cancellation
  as an outcome of its own.

  The code does not do this when the flag is seen during transcoding. In an export to MP4
  that nobody cancels while it records, Cancel pressed while the transcoding engine loads
  makes the check after the load throw \<^verbatim>\<open>Export cancelled\<close>; the throw is inside the
  \<^verbatim>\<open>try\<close> whose handler treats every error as a failed conversion, so the export saves
  the WebM, shows the conversion-failed message and resolves its promise as a finished
  export does. Seen by an animation frame or by the stop handler, the same flag makes the
  export reject with \<^verbatim>\<open>Export cancelled\<close> and save nothing
  (\<open>cancel_seen_before_transcoding\<close>).
\<close>

theorem cancel_during_transcoding_saves_webm:
  "cancelSeen (exportVideo source4000 mp4
        (quietExport\<lparr>ffmpeg := workingEngine\<lparr>cancelDuringLoad := True\<rparr>\<rparr>)
        (startExport previewVideo False)) = [AtTranscode]
   \<and> downloads (exportVideo source4000 mp4
        (quietExport\<lparr>ffmpeg := workingEngine\<lparr>cancelDuringLoad := True\<rparr>\<rparr>)
        (startExport previewVideo False)) = [''webm'']
   \<and> alerts (exportVideo source4000 mp4
        (quietExport\<lparr>ffmpeg := workingEngine\<lparr>cancelDuringLoad := True\<rparr>\<rparr>)
        (startExport previewVideo False))
       = [''MP4 conversion failed: Export cancelled. Downloaded as WebM instead.'']
   \<and> promise (exportVideo source4000 mp4
        (quietExport\<lparr>ffmpeg := workingEngine\<lparr>cancelDuringLoad := True\<rparr>\<rparr>)
        (startExport previewVideo False)) = Resolved"
  by (simp add: exportVideo_def startRecording_def prepareRecording_def recordFrame_def
      finishRecording_def onstop_def convertToMp4_def writeInput_def stopRecorder_def
      ondataavailable_def isCancelled_def quietExport_def workingEngine_def startExport_def
      previewVideo_def source4000_def Let_def)

text \<open>At that input a file is saved although the flag was seen, and the promise does not
  tell the cancellation from a finished export.\<close>

theorem cancel_during_transcoding_saves_webm_witness:
  "cancelSeen (exportVideo source4000 mp4
        (quietExport\<lparr>ffmpeg := workingEngine\<lparr>cancelDuringLoad := True\<rparr>\<rparr>)
        (startExport previewVideo False)) \<noteq> []
   \<and> downloads (exportVideo source4000 mp4
        (quietExport\<lparr>ffmpeg := workingEngine\<lparr>cancelDuringLoad := True\<rparr>\<rparr>)
        (startExport previewVideo False)) \<noteq> []
   \<and> promise (exportVideo source4000 mp4
        (quietExport\<lparr>ffmpeg := workingEngine\<lparr>cancelDuringLoad := True\<rparr>\<rparr>)
        (startExport previewVideo False)) \<noteq> Rejected ''Export cancelled''"
  using cancel_during_transcoding_saves_webm by simp

end
